theory Spec2Isabelle
  imports Complex_Main "HOL-Library.Word" "HOL-Library.Monad_Syntax"
begin

section \<open>The Gaussian basis-set engine of OpenQube (gaussianset.cpp)\<close>

text \<open>
  Conventions of the embedding.
  \<^item> A C++ \<open>double\<close> is a \<open>real\<close>: rounding, overflow and NaN are not modelled.
    \<open>pow(a, e)\<close> with a fractional exponent is \<open>a powr e\<close> (meaningful for \<open>a \<ge> 0\<close>),
    \<open>pow(a, 7.0)\<close> is \<open>a ^ 7\<close>.
  \<^item> \<open>unsigned int\<close> counters and indices are \<open>nat\<close> (they stay far below \<open>2 ^ 32\<close>);
    the requested state, which the caller chooses freely, is a \<open>32 word\<close>.
  \<^item> A function returns \<open>None\<close> where the C++ has no defined result: a read or
    write outside a \<open>std::vector\<close> or an Eigen matrix, an integer division by zero,
    a write lock that cannot be taken.
  \<^item> \<open>qDebug()\<close> output is returned as a list of lines.
\<close>

subsection \<open>Library types: vectors, Eigen matrices\<close>

definition vec_at :: "'a list \<Rightarrow> nat \<Rightarrow> 'a option" where
  \<comment> \<open>\<open>std::vector::operator[]\<close>\<close>
  "vec_at xs i = (if i < length xs then Some (xs ! i) else None)"

definition resize_vec :: "nat \<Rightarrow> nat list \<Rightarrow> nat list" where
  \<comment> \<open>\<open>std::vector<unsigned int>::resize(n)\<close>: keeps a prefix, pads with zeros\<close>
  "resize_vec n xs = take n xs @ replicate (n - length xs) 0"

datatype Vector3d = Vector3d (vec_x: real) (vec_y: real) (vec_z: real)

definition vec_scale :: "Vector3d \<Rightarrow> real \<Rightarrow> Vector3d" where
  "vec_scale v k = Vector3d (vec_x v * k) (vec_y v * k) (vec_z v * k)"

definition vec_sub :: "Vector3d \<Rightarrow> Vector3d \<Rightarrow> Vector3d" where
  "vec_sub a b = Vector3d (vec_x a - vec_x b) (vec_y a - vec_y b) (vec_z a - vec_z b)"

definition squaredNorm :: "Vector3d \<Rightarrow> real" where
  "squaredNorm v = vec_x v * vec_x v + vec_y v * vec_y v + vec_z v * vec_z v"

text \<open>
  \<open>Eigen::MatrixXd\<close>: a dynamic matrix stored column-major in one array.
  \<open>resize\<close> keeps the array when the number of coefficients is unchanged and
  otherwise allocates a new, uninitialised one; the contents of that fresh storage
  are the parameter \<open>mem\<close> (cell \<open>k\<close> holds \<open>mem k\<close>).
\<close>

record MatrixXd =
  rows :: nat
  cols :: nat
  coeffs :: "real list"

definition empty_matrix :: MatrixXd where
  "empty_matrix = \<lparr>rows = 0, cols = 0, coeffs = []\<rparr>"

definition matrix_size :: "MatrixXd \<Rightarrow> nat" where
  "matrix_size m = rows m * cols m"

definition coeffRef :: "MatrixXd \<Rightarrow> nat \<Rightarrow> nat \<Rightarrow> real option" where
  "coeffRef m i j =
     (if i < rows m \<and> j < cols m then vec_at (coeffs m) (i + j * rows m) else None)"

definition set_coeffRef :: "MatrixXd \<Rightarrow> nat \<Rightarrow> nat \<Rightarrow> real \<Rightarrow> MatrixXd option" where
  "set_coeffRef m i j v =
     (if i < rows m \<and> j < cols m \<and> i + j * rows m < length (coeffs m)
      then Some (m\<lparr>coeffs := (coeffs m)[i + j * rows m := v]\<rparr>) else None)"

definition resize_matrix :: "(nat \<Rightarrow> real) \<Rightarrow> nat \<Rightarrow> nat \<Rightarrow> MatrixXd \<Rightarrow> MatrixXd" where
  "resize_matrix mem r c m =
     (if r * c = rows m * cols m then m\<lparr>rows := r, cols := c\<rparr>
      else \<lparr>rows = r, cols = c, coeffs = map mem [0..<r * c]\<rparr>)"

primrec forM :: "nat list \<Rightarrow> (nat \<Rightarrow> 's \<Rightarrow> 's option) \<Rightarrow> 's \<Rightarrow> 's option" where
  \<comment> \<open>a counted \<open>for\<close> loop whose body may fail\<close>
  "forM [] body s = Some s"
| "forM (i # is) body s = (case body i s of None \<Rightarrow> None | Some s' \<Rightarrow> forM is body s')"

subsection \<open>Molecule and Cube\<close>

text \<open>
  Modelled from the spec: the classes \<open>Molecule\<close> and \<open>Cube\<close> are declared outside
  the sources at hand. A molecule is the ordered list of its atoms; a cube is a regular
  grid with an origin, a spacing, three extents, the array of samples, a type tag and a
  read/write lock, and sample \<open>i\<close> sits at \<open>origin + spacing * (ix, iy, iz)\<close>
  for the row-major decomposition of \<open>i\<close>.
\<close>

record Atom =
  atomicNumber :: int
  atom_pos :: Vector3d

type_synonym Molecule = "Atom list"

definition molecule_addAtom :: "Vector3d \<Rightarrow> int \<Rightarrow> Molecule \<Rightarrow> Molecule" where
  "molecule_addAtom p zn mol = mol @ [\<lparr>atomicNumber = zn, atom_pos = p\<rparr>]"

definition numAtoms :: "Molecule \<Rightarrow> nat" where
  "numAtoms mol = length mol"

definition atomPos :: "Molecule \<Rightarrow> nat \<Rightarrow> Vector3d option" where
  "atomPos mol i = map_option atom_pos (vec_at mol i)"

datatype CubeType = NoType | MO | ElectronDensity

datatype LockState = Unlocked | LockedForRead | LockedForWrite

record Cube =
  cube_origin :: Vector3d
  cube_spacing :: Vector3d
  cube_dims :: "nat \<times> nat \<times> nat"
  cube_data :: "real list"
  cube_type :: CubeType
  cube_lock :: LockState

definition position :: "Cube \<Rightarrow> nat \<Rightarrow> Vector3d" where
  "position c i =
     (case cube_dims c of (nx, ny, nz) \<Rightarrow>
        let ix = i div (ny * nz); iy = (i div nz) mod ny; iz = i mod nz
        in Vector3d (vec_x (cube_origin c) + vec_x (cube_spacing c) * real ix)
                    (vec_y (cube_origin c) + vec_y (cube_spacing c) * real iy)
                    (vec_z (cube_origin c) + vec_z (cube_spacing c) * real iz))"

definition setValue :: "Cube \<Rightarrow> nat \<Rightarrow> real \<Rightarrow> Cube option" where
  "setValue c i v =
     (if i < length (cube_data c) then Some (c\<lparr>cube_data := (cube_data c)[i := v]\<rparr>)
      else None)"

definition setCubeType :: "CubeType \<Rightarrow> Cube \<Rightarrow> Cube" where
  "setCubeType t c = c\<lparr>cube_type := t\<rparr>"

definition lockForWrite :: "Cube \<Rightarrow> Cube option" where
  \<comment> \<open>returns only when the lock is free\<close>
  "lockForWrite c =
     (if cube_lock c = Unlocked then Some (c\<lparr>cube_lock := LockedForWrite\<rparr>) else None)"

definition unlock :: "Cube \<Rightarrow> Cube" where
  "unlock c = c\<lparr>cube_lock := Unlocked\<rparr>"

subsection \<open>The basis set and its builders\<close>

datatype orbital = S | SP | P | D | D5 | F | F7 | G | G9 | H | H11 | I | I13

text \<open>
  One entry of the work array. In the C++ every entry also carries the pointers
  \<open>set\<close> and \<open>tCube\<close>; all entries of one computation point to the same basis and the
  same cube, which the model passes alongside.
\<close>

record GaussianShell =
  pos :: nat
  state :: "32 word"

record GaussianSet =
  m_numMOs :: nat
  m_numAtoms :: nat
  m_init :: bool
  m_molecule :: Molecule
  m_symmetry :: "orbital list"
  m_atomIndices :: "nat list"
  m_moIndices :: "nat list"
  m_gtoIndices :: "nat list"
  m_cIndices :: "nat list"
  m_gtoA :: "real list"
  m_gtoC :: "real list"
  m_gtoCN :: "real list"
  m_moMatrix :: MatrixXd
  m_density :: MatrixXd
  m_gaussianShells :: "GaussianShell list option"

definition BOHR_TO_ANGSTROM :: real where
  "BOHR_TO_ANGSTROM = 0.529177249"

definition ANGSTROM_TO_BOHR :: real where
  "ANGSTROM_TO_BOHR = 1 / BOHR_TO_ANGSTROM"

definition new_GaussianSet :: GaussianSet where
  \<comment> \<open>the constructor \<open>GaussianSet::GaussianSet()\<close>\<close>
  "new_GaussianSet =
     \<lparr>m_numMOs = 0, m_numAtoms = 0, m_init = False, m_molecule = [],
      m_symmetry = [], m_atomIndices = [], m_moIndices = [], m_gtoIndices = [],
      m_cIndices = [], m_gtoA = [], m_gtoC = [], m_gtoCN = [],
      m_moMatrix = empty_matrix, m_density = empty_matrix, m_gaussianShells = None\<rparr>"

definition addAtom :: "Vector3d \<Rightarrow> int \<Rightarrow> GaussianSet \<Rightarrow> GaussianSet \<times> nat" where
  "addAtom p atomicNum gs =
     (let gs1 = gs\<lparr>m_init := False\<rparr>;
          gs2 = gs1\<lparr>m_molecule := molecule_addAtom p atomicNum (m_molecule gs1)\<rparr>
      in (gs2, numAtoms (m_molecule gs2) - 1))"

fun addBasis_count :: "orbital \<Rightarrow> nat \<Rightarrow> nat" where
  \<comment> \<open>the \<open>switch\<close> of \<open>addBasis\<close> on \<open>m_numMOs\<close>\<close>
  "addBasis_count S n = n + 1"
| "addBasis_count P n = n + 3"
| "addBasis_count SP n = n + 4"
| "addBasis_count D n = n + 6"
| "addBasis_count D5 n = n + 5"
| "addBasis_count F n = n + 8"
| "addBasis_count F7 n = n + 7"
| "addBasis_count _ n = n"

definition addBasis :: "nat \<Rightarrow> orbital \<Rightarrow> GaussianSet \<Rightarrow> GaussianSet \<times> nat" where
  "addBasis atom type gs =
     (let gs1 = gs\<lparr>m_numMOs := addBasis_count type (m_numMOs gs)\<rparr>;
          gs2 = gs1\<lparr>m_init := False\<rparr>;
          gs3 = gs2\<lparr>m_symmetry := m_symmetry gs2 @ [type]\<rparr>;
          gs4 = gs3\<lparr>m_atomIndices := m_atomIndices gs3 @ [atom]\<rparr>
      in (gs4, length (m_symmetry gs4) - 1))"

definition addGTO :: "nat \<Rightarrow> real \<Rightarrow> real \<Rightarrow> GaussianSet \<Rightarrow> GaussianSet \<times> nat" where
  "addGTO unused c a gs =
     (let gs1 = (if length (m_gtoIndices gs) < length (m_atomIndices gs)
                 then gs\<lparr>m_gtoIndices := m_gtoIndices gs @ [length (m_gtoA gs)]\<rparr>
                 else gs);
          gs2 = gs1\<lparr>m_gtoA := m_gtoA gs1 @ [a]\<rparr>;
          gs3 = gs2\<lparr>m_gtoC := m_gtoC gs2 @ [c]\<rparr>
      in (gs3, length (m_gtoA gs3) - 1))"

definition addMOs_body :: "real list \<Rightarrow> nat \<Rightarrow> nat \<Rightarrow> nat \<Rightarrow> MatrixXd \<Rightarrow> MatrixXd option" where
  \<comment> \<open>\<open>m_moMatrix.coeffRef(i, j) = MOs[i + j*m_numMOs]\<close>\<close>
  "addMOs_body mos n j i m =
     (case vec_at mos (i + j * n) of None \<Rightarrow> None | Some v \<Rightarrow> set_coeffRef m i j v)"

definition addMOs :: "(nat \<Rightarrow> real) \<Rightarrow> real list \<Rightarrow> GaussianSet \<Rightarrow> GaussianSet option" where
  \<comment> \<open>\<open>mem\<close>: the contents of the storage \<open>resize\<close> allocates, if it allocates; the
      \<open>qDebug\<close> line with \<open>m_numMOs\<close> and \<open>columns\<close> is left out\<close>
  "addMOs mem mos gs =
     (let gs1 = gs\<lparr>m_init := False\<rparr> in
      if m_numMOs gs1 = 0 then None
      else
        let columns = length mos div m_numMOs gs1;
            m0 = resize_matrix mem (m_numMOs gs1) (m_numMOs gs1) (m_moMatrix gs1)
        in case forM [0..<columns]
                  (\<lambda>j. forM [0..<m_numMOs gs1] (addMOs_body mos (m_numMOs gs1) j)) m0 of
             None \<Rightarrow> None
           | Some m \<Rightarrow> Some (gs1\<lparr>m_moMatrix := m\<rparr>))"

definition addMO :: "real \<Rightarrow> GaussianSet \<Rightarrow> GaussianSet" where
  "addMO v gs = gs\<lparr>m_init := False\<rparr>"

definition setDensityMatrix :: "MatrixXd \<Rightarrow> GaussianSet \<Rightarrow> GaussianSet \<times> bool" where
  \<comment> \<open>\<open>resize\<close> followed by the assignment: the assignment decides every coefficient\<close>
  "setDensityMatrix m gs = (gs\<lparr>m_density := m\<rparr>, True)"

definition numMOs :: "GaussianSet \<Rightarrow> 32 word" where
  "numMOs gs = word_of_nat (rows (m_moMatrix gs))"

definition clone :: "GaussianSet \<Rightarrow> GaussianSet" where
  \<comment> \<open>a fresh object, then the member-wise assignments of \<open>clone\<close>, in its order\<close>
  "clone this =
     (let result = new_GaussianSet;
          result = result\<lparr>m_symmetry := m_symmetry this\<rparr>;
          result = result\<lparr>m_atomIndices := m_atomIndices this\<rparr>;
          result = result\<lparr>m_moIndices := m_moIndices this\<rparr>;
          result = result\<lparr>m_gtoIndices := m_gtoIndices this\<rparr>;
          result = result\<lparr>m_cIndices := m_cIndices this\<rparr>;
          result = result\<lparr>m_gtoA := m_gtoA this\<rparr>;
          result = result\<lparr>m_gtoC := m_gtoC this\<rparr>;
          result = result\<lparr>m_gtoCN := m_gtoCN this\<rparr>;
          result = result\<lparr>m_moMatrix := m_moMatrix this\<rparr>;
          result = result\<lparr>m_density := m_density this\<rparr>;
          result = result\<lparr>m_numMOs := m_numMOs this\<rparr>;
          result = result\<lparr>m_numAtoms := m_numAtoms this\<rparr>;
          result = result\<lparr>m_init := m_init this\<rparr>
      in result)"

definition isSmall :: "real \<Rightarrow> bool" where
  "isSmall val = (if val > - (1 / 10 ^ 20) \<and> val < 1 / 10 ^ 20 then True else False)"

subsection \<open>The normalization pass\<close>

definition vec_set :: "'a list \<Rightarrow> nat \<Rightarrow> 'a \<Rightarrow> 'a list option" where
  \<comment> \<open>\<open>v[i] = x\<close> on a \<open>std::vector\<close>\<close>
  "vec_set xs i v = (if i < length xs then Some (xs[i := v]) else None)"

definition push_S :: "nat \<Rightarrow> GaussianSet \<Rightarrow> GaussianSet option" where
  "push_S j gs = do {
     c \<leftarrow> vec_at (m_gtoC gs) j;
     a \<leftarrow> vec_at (m_gtoA gs) j;
     Some (gs\<lparr>m_gtoCN := m_gtoCN gs @ [c * a powr 0.75 * 0.71270547]\<rparr>)
   }"

definition push_P :: "nat \<Rightarrow> GaussianSet \<Rightarrow> GaussianSet option" where
  "push_P j gs = do {
     c \<leftarrow> vec_at (m_gtoC gs) j;
     a \<leftarrow> vec_at (m_gtoA gs) j;
     let gs1 = gs\<lparr>m_gtoCN := m_gtoCN gs @ [c * a powr 1.25 * 1.425410941]\<rparr>;
     let gs2 = gs1\<lparr>m_gtoCN := m_gtoCN gs1 @ [last (m_gtoCN gs1)]\<rparr>;
     Some (gs2\<lparr>m_gtoCN := m_gtoCN gs2 @ [last (m_gtoCN gs2)]\<rparr>)
   }"

definition push_D :: "nat \<Rightarrow> GaussianSet \<Rightarrow> GaussianSet option" where
  "push_D j gs = do {
     c \<leftarrow> vec_at (m_gtoC gs) j;
     a \<leftarrow> vec_at (m_gtoA gs) j;
     let gs1 = gs\<lparr>m_gtoCN := m_gtoCN gs @ [c * a powr 1.75 * 1.645922781]\<rparr>;
     let gs2 = gs1\<lparr>m_gtoCN := m_gtoCN gs1 @ [last (m_gtoCN gs1)]\<rparr>;
     let gs3 = gs2\<lparr>m_gtoCN := m_gtoCN gs2 @ [last (m_gtoCN gs2)]\<rparr>;
     c' \<leftarrow> vec_at (m_gtoC gs3) j;
     a' \<leftarrow> vec_at (m_gtoA gs3) j;
     let gs4 = gs3\<lparr>m_gtoCN := m_gtoCN gs3 @ [c' * a' powr 1.75 * 2.850821881]\<rparr>;
     let gs5 = gs4\<lparr>m_gtoCN := m_gtoCN gs4 @ [last (m_gtoCN gs4)]\<rparr>;
     Some (gs5\<lparr>m_gtoCN := m_gtoCN gs5 @ [last (m_gtoCN gs5)]\<rparr>)
   }"

definition push_D5 :: "nat \<Rightarrow> GaussianSet \<Rightarrow> GaussianSet option" where
  "push_D5 j gs = do {
     c \<leftarrow> vec_at (m_gtoC gs) j;
     a \<leftarrow> vec_at (m_gtoA gs) j;
     let gs1 = gs\<lparr>m_gtoCN := m_gtoCN gs @ [c * (2048 * a ^ 7 / (9 * pi * pi * pi)) powr 0.25]\<rparr>;
     let gs2 = gs1\<lparr>m_gtoCN := m_gtoCN gs1 @ [c * (2048 * a ^ 7 / (pi * pi * pi)) powr 0.25]\<rparr>;
     let gs3 = gs2\<lparr>m_gtoCN := m_gtoCN gs2 @ [last (m_gtoCN gs2)]\<rparr>;
     let gs4 = gs3\<lparr>m_gtoCN := m_gtoCN gs3 @ [c * (128 * a ^ 7 / (pi * pi * pi)) powr 0.25]\<rparr>;
     Some (gs4\<lparr>m_gtoCN := m_gtoCN gs4 @ [c * (2048 * a ^ 7 / (pi * pi * pi)) powr 0.25]\<rparr>)
   }"

fun skip_fallthrough :: "orbital \<Rightarrow> nat \<Rightarrow> nat" where
  \<comment> \<open>the case labels \<open>F\<close> to \<open>I13\<close> have no \<open>break\<close> between them: control enters at
      the matching label and runs every later assignment to \<open>skip\<close>\<close>
  "skip_fallthrough F skip =
     (let skip = (10::nat); skip = (7::nat); skip = (15::nat); skip = (9::nat);
          skip = (21::nat); skip = (11::nat); skip = (28::nat); skip = (13::nat)
      in skip)"
| "skip_fallthrough F7 skip =
     (let skip = (7::nat); skip = (15::nat); skip = (9::nat); skip = (21::nat);
          skip = (11::nat); skip = (28::nat); skip = (13::nat)
      in skip)"
| "skip_fallthrough G skip =
     (let skip = (15::nat); skip = (9::nat); skip = (21::nat); skip = (11::nat);
          skip = (28::nat); skip = (13::nat)
      in skip)"
| "skip_fallthrough G9 skip =
     (let skip = (9::nat); skip = (21::nat); skip = (11::nat); skip = (28::nat);
          skip = (13::nat)
      in skip)"
| "skip_fallthrough H skip =
     (let skip = (21::nat); skip = (11::nat); skip = (28::nat); skip = (13::nat) in skip)"
| "skip_fallthrough H11 skip = (let skip = (11::nat); skip = (28::nat); skip = (13::nat) in skip)"
| "skip_fallthrough I skip = (let skip = (28::nat); skip = (13::nat) in skip)"
| "skip_fallthrough I13 skip = (let skip = (13::nat) in skip)"
| "skip_fallthrough _ skip = skip"

definition not_handled :: string where
  "not_handled = ''Basis set not handled - results may be incorrect.''"

definition init_counted ::
  "nat \<Rightarrow> nat \<Rightarrow> (nat \<Rightarrow> GaussianSet \<Rightarrow> GaussianSet option) \<Rightarrow> GaussianSet \<Rightarrow> nat
     \<Rightarrow> (GaussianSet \<times> nat) option" where
  \<comment> \<open>the common shape of the cases \<open>P\<close>, \<open>D\<close>, \<open>D5\<close>: record the MO offset, advance it by
      \<open>n\<close>, record the coefficient offset, push the coefficients of every primitive\<close>
  "init_counted i n push gs indexMO = do {
     mo \<leftarrow> vec_set (m_moIndices gs) i indexMO;
     let gs1 = gs\<lparr>m_moIndices := mo\<rparr>;
     let gs2 = gs1\<lparr>m_cIndices := m_cIndices gs1 @ [length (m_gtoCN gs1)]\<rparr>;
     lo \<leftarrow> vec_at (m_gtoIndices gs2) i;
     hi \<leftarrow> vec_at (m_gtoIndices gs2) (i + 1);
     gs3 \<leftarrow> forM [lo..<hi] push gs2;
     Some (gs3, indexMO + n)
   }"

definition init_shell ::
  "nat \<Rightarrow> GaussianSet \<times> nat \<times> nat \<times> string list
     \<Rightarrow> (GaussianSet \<times> nat \<times> nat \<times> string list) option" where
  \<comment> \<open>one round of the loop over \<open>m_symmetry\<close>; the state is the basis, \<open>indexMO\<close>,
      \<open>skip\<close> and the diagnostics so far\<close>
  "init_shell i st =
     (case st of (gs, indexMO, skip, out) \<Rightarrow>
      case vec_at (m_symmetry gs) i of
        None \<Rightarrow> None
      | Some S \<Rightarrow> map_option (\<lambda>(g, k). (g, k, skip, out)) (init_counted i 1 push_S gs indexMO)
      | Some P \<Rightarrow> map_option (\<lambda>(g, k). (g, k, skip, out)) (init_counted i 3 push_P gs indexMO)
      | Some D \<Rightarrow> map_option (\<lambda>(g, k). (g, k, skip, out)) (init_counted i 6 push_D gs indexMO)
      | Some D5 \<Rightarrow> map_option (\<lambda>(g, k). (g, k, skip, out)) (init_counted i 5 push_D5 gs indexMO)
      | Some SP \<Rightarrow> Some (gs, indexMO, skip, out @ [not_handled])
      | Some t \<Rightarrow> do {
          let skip1 = skip_fallthrough t skip;
          mo \<leftarrow> vec_set (m_moIndices gs) i indexMO;
          let gs1 = gs\<lparr>m_moIndices := mo\<rparr>;
          let gs2 = gs1\<lparr>m_cIndices := m_cIndices gs1 @ [length (m_gtoCN gs1)]\<rparr>;
          Some (gs2, indexMO + skip1, skip1, out @ [not_handled])
        })"

definition initCalculation :: "GaussianSet \<Rightarrow> (GaussianSet \<times> string list) option" where
  "initCalculation gs =
     (if m_init gs then Some (gs, [])
      else do {
        let gs1 = gs\<lparr>m_numAtoms := numAtoms (m_molecule gs)\<rparr>;
        let gs2 = gs1\<lparr>m_gtoCN := []\<rparr>;
        let gs3 = gs2\<lparr>m_moIndices := resize_vec (length (m_symmetry gs2)) (m_moIndices gs2)\<rparr>;
        let gs4 = gs3\<lparr>m_gtoIndices := m_gtoIndices gs3 @ [length (m_gtoA gs3)]\<rparr>;
        (gs5, indexMO, skip, out) \<leftarrow> forM [0..<length (m_symmetry gs4)] init_shell (gs4, 0, 0, []);
        Some (gs5\<lparr>m_init := True\<rparr>, out)
      })"

subsection \<open>The kernels for one molecular orbital\<close>

definition pointS_step :: "GaussianSet \<Rightarrow> real \<Rightarrow> nat \<Rightarrow> real \<times> nat \<Rightarrow> (real \<times> nat) option" where
  \<comment> \<open>\<open>tmp += m_gtoCN[cIndex++] * exp(-m_gtoA[i] * dr2)\<close>\<close>
  "pointS_step gs dr2 i st =
     (case st of (tmp, cIndex) \<Rightarrow> do {
        cn \<leftarrow> vec_at (m_gtoCN gs) cIndex;
        a \<leftarrow> vec_at (m_gtoA gs) i;
        Some (tmp + cn * exp (- a * dr2), cIndex + 1)
      })"

definition pointS_loop :: "GaussianSet \<Rightarrow> nat \<Rightarrow> real \<Rightarrow> real option" where
  \<comment> \<open>the loop of \<open>pointS\<close> over the primitives of shell \<open>moIndex\<close>, from \<open>tmp = 0.0\<close>\<close>
  "pointS_loop gs moIndex dr2 = do {
     cIndex \<leftarrow> vec_at (m_cIndices gs) moIndex;
     lo \<leftarrow> vec_at (m_gtoIndices gs) moIndex;
     hi \<leftarrow> vec_at (m_gtoIndices gs) (moIndex + 1);
     r \<leftarrow> forM [lo..<hi] (pointS_step gs dr2) (0, cIndex);
     Some (fst r)
   }"

definition pointS :: "GaussianSet \<Rightarrow> nat \<Rightarrow> real \<Rightarrow> nat \<Rightarrow> real option" where
  "pointS gs moIndex dr2 indexMO = do {
     mo \<leftarrow> vec_at (m_moIndices gs) moIndex;
     c \<leftarrow> coeffRef (m_moMatrix gs) mo indexMO;
     if isSmall c then Some 0
     else do {
       tmp \<leftarrow> pointS_loop gs moIndex dr2;
       Some (tmp * c)
     }
   }"

definition pointP_step ::
  "GaussianSet \<Rightarrow> Vector3d \<Rightarrow> real \<Rightarrow> nat \<Rightarrow> real \<times> real \<times> real \<times> nat
     \<Rightarrow> (real \<times> real \<times> real \<times> nat) option" where
  "pointP_step gs delta dr2 i st =
     (case st of (x, y, z, cIndex) \<Rightarrow> do {
        a \<leftarrow> vec_at (m_gtoA gs) i;
        let tmpGTO = exp (- a * dr2);
        cx \<leftarrow> vec_at (m_gtoCN gs) cIndex;
        cy \<leftarrow> vec_at (m_gtoCN gs) (cIndex + 1);
        cz \<leftarrow> vec_at (m_gtoCN gs) (cIndex + 2);
        Some (x + cx * vec_x delta * tmpGTO, y + cy * vec_y delta * tmpGTO,
              z + cz * vec_z delta * tmpGTO, cIndex + 3)
      })"

definition pointP :: "GaussianSet \<Rightarrow> nat \<Rightarrow> Vector3d \<Rightarrow> real \<Rightarrow> nat \<Rightarrow> real option" where
  "pointP gs moIndex delta dr2 indexMO = do {
     baseIndex \<leftarrow> vec_at (m_moIndices gs) moIndex;
     cIndex \<leftarrow> vec_at (m_cIndices gs) moIndex;
     lo \<leftarrow> vec_at (m_gtoIndices gs) moIndex;
     hi \<leftarrow> vec_at (m_gtoIndices gs) (moIndex + 1);
     (x, y, z, cEnd) \<leftarrow> forM [lo..<hi] (pointP_step gs delta dr2) (0, 0, 0, cIndex);
     Px \<leftarrow> coeffRef (m_moMatrix gs) baseIndex indexMO;
     Py \<leftarrow> coeffRef (m_moMatrix gs) (baseIndex + 1) indexMO;
     Pz \<leftarrow> coeffRef (m_moMatrix gs) (baseIndex + 2) indexMO;
     Some (Px * x + Py * y + Pz * z)
   }"

definition pointD_step ::
  "GaussianSet \<Rightarrow> real \<Rightarrow> nat \<Rightarrow> real \<times> real \<times> real \<times> real \<times> real \<times> real \<times> nat
     \<Rightarrow> (real \<times> real \<times> real \<times> real \<times> real \<times> real \<times> nat) option" where
  "pointD_step gs dr2 i st =
     (case st of (xx, yy, zz, xy, xz, yz, cIndex) \<Rightarrow> do {
        a \<leftarrow> vec_at (m_gtoA gs) i;
        let tmpGTO = exp (- a * dr2);
        c0 \<leftarrow> vec_at (m_gtoCN gs) cIndex;
        c1 \<leftarrow> vec_at (m_gtoCN gs) (cIndex + 1);
        c2 \<leftarrow> vec_at (m_gtoCN gs) (cIndex + 2);
        c3 \<leftarrow> vec_at (m_gtoCN gs) (cIndex + 3);
        c4 \<leftarrow> vec_at (m_gtoCN gs) (cIndex + 4);
        c5 \<leftarrow> vec_at (m_gtoCN gs) (cIndex + 5);
        Some (xx + c0 * tmpGTO, yy + c1 * tmpGTO, zz + c2 * tmpGTO, xy + c3 * tmpGTO,
              xz + c4 * tmpGTO, yz + c5 * tmpGTO, cIndex + 6)
      })"

definition pointD :: "GaussianSet \<Rightarrow> nat \<Rightarrow> Vector3d \<Rightarrow> real \<Rightarrow> nat \<Rightarrow> real option" where
  "pointD gs moIndex delta dr2 indexMO = do {
     baseIndex \<leftarrow> vec_at (m_moIndices gs) moIndex;
     cIndex \<leftarrow> vec_at (m_cIndices gs) moIndex;
     lo \<leftarrow> vec_at (m_gtoIndices gs) moIndex;
     hi \<leftarrow> vec_at (m_gtoIndices gs) (moIndex + 1);
     (xx, yy, zz, xy, xz, yz, cEnd) \<leftarrow>
        forM [lo..<hi] (pointD_step gs dr2) (0, 0, 0, 0, 0, 0, cIndex);
     c0 \<leftarrow> coeffRef (m_moMatrix gs) baseIndex indexMO;
     c1 \<leftarrow> coeffRef (m_moMatrix gs) (baseIndex + 1) indexMO;
     c2 \<leftarrow> coeffRef (m_moMatrix gs) (baseIndex + 2) indexMO;
     c3 \<leftarrow> coeffRef (m_moMatrix gs) (baseIndex + 3) indexMO;
     c4 \<leftarrow> coeffRef (m_moMatrix gs) (baseIndex + 4) indexMO;
     c5 \<leftarrow> coeffRef (m_moMatrix gs) (baseIndex + 5) indexMO;
     let Dxx = c0 * vec_x delta * vec_x delta;
     let Dyy = c1 * vec_y delta * vec_y delta;
     let Dzz = c2 * vec_z delta * vec_z delta;
     let Dxy = c3 * vec_x delta * vec_y delta;
     let Dxz = c4 * vec_x delta * vec_z delta;
     let Dyz = c5 * vec_y delta * vec_z delta;
     Some (Dxx * xx + Dyy * yy + Dzz * zz + Dxy * xy + Dxz * xz + Dyz * yz)
   }"

definition pointD5_step ::
  "GaussianSet \<Rightarrow> real \<Rightarrow> nat \<Rightarrow> real \<times> real \<times> real \<times> real \<times> real \<times> nat
     \<Rightarrow> (real \<times> real \<times> real \<times> real \<times> real \<times> nat) option" where
  "pointD5_step gs dr2 i st =
     (case st of (d0, d1p, d1n, d2p, d2n, cIndex) \<Rightarrow> do {
        a \<leftarrow> vec_at (m_gtoA gs) i;
        let tmpGTO = exp (- a * dr2);
        c0 \<leftarrow> vec_at (m_gtoCN gs) cIndex;
        c1 \<leftarrow> vec_at (m_gtoCN gs) (cIndex + 1);
        c2 \<leftarrow> vec_at (m_gtoCN gs) (cIndex + 2);
        c3 \<leftarrow> vec_at (m_gtoCN gs) (cIndex + 3);
        c4 \<leftarrow> vec_at (m_gtoCN gs) (cIndex + 4);
        Some (d0 + c0 * tmpGTO, d1p + c1 * tmpGTO, d1n + c2 * tmpGTO, d2p + c3 * tmpGTO,
              d2n + c4 * tmpGTO, cIndex + 5)
      })"

definition pointD5 :: "GaussianSet \<Rightarrow> nat \<Rightarrow> Vector3d \<Rightarrow> real \<Rightarrow> nat \<Rightarrow> real option" where
  "pointD5 gs moIndex delta dr2 indexMO = do {
     baseIndex \<leftarrow> vec_at (m_moIndices gs) moIndex;
     cIndex \<leftarrow> vec_at (m_cIndices gs) moIndex;
     lo \<leftarrow> vec_at (m_gtoIndices gs) moIndex;
     hi \<leftarrow> vec_at (m_gtoIndices gs) (moIndex + 1);
     (d0, d1p, d1n, d2p, d2n, cEnd) \<leftarrow>
        forM [lo..<hi] (pointD5_step gs dr2) (0, 0, 0, 0, 0, cIndex);
     let xx = vec_x delta * vec_x delta;
     let yy = vec_y delta * vec_y delta;
     let zz = vec_z delta * vec_z delta;
     let xy = vec_x delta * vec_y delta;
     let xz = vec_x delta * vec_z delta;
     let yz = vec_y delta * vec_z delta;
     c0 \<leftarrow> coeffRef (m_moMatrix gs) baseIndex indexMO;
     c1 \<leftarrow> coeffRef (m_moMatrix gs) (baseIndex + 1) indexMO;
     c2 \<leftarrow> coeffRef (m_moMatrix gs) (baseIndex + 2) indexMO;
     c3 \<leftarrow> coeffRef (m_moMatrix gs) (baseIndex + 3) indexMO;
     c4 \<leftarrow> coeffRef (m_moMatrix gs) (baseIndex + 4) indexMO;
     let D0 = c0 * (zz - dr2);
     let D1p = c1 * xz;
     let D1n = c2 * yz;
     let D2p = c3 * (xx - yy);
     let D2n = c4 * xy;
     Some (D0 * d0 + D1p * d1p + D1n * d1n + D2p * d2p + D2n * d2n)
   }"

subsection \<open>Evaluation at one grid point\<close>

definition deltas_step ::
  "GaussianSet \<Rightarrow> Vector3d \<Rightarrow> nat \<Rightarrow> Vector3d list \<times> real list
     \<Rightarrow> (Vector3d list \<times> real list) option" where
  "deltas_step gs p i st =
     (case st of (deltas, dr2) \<Rightarrow> do {
        ap \<leftarrow> atomPos (m_molecule gs) i;
        let deltas1 = deltas @ [vec_sub p ap];
        d \<leftarrow> vec_at deltas1 i;
        Some (deltas1, dr2 @ [squaredNorm d])
      })"

definition shell_value ::
  "GaussianSet \<Rightarrow> Vector3d list \<Rightarrow> real list \<Rightarrow> nat \<Rightarrow> nat \<Rightarrow> real \<Rightarrow> real option" where
  \<comment> \<open>one round of the loop over the shells: the \<open>switch\<close> on \<open>basis[i]\<close>\<close>
  "shell_value gs deltas dr2 indexMO i tmp =
     (case vec_at (m_symmetry gs) i of
        None \<Rightarrow> None
      | Some S \<Rightarrow> do {
          ai \<leftarrow> vec_at (m_atomIndices gs) i;
          r \<leftarrow> vec_at dr2 ai;
          v \<leftarrow> pointS gs i r indexMO;
          Some (tmp + v) }
      | Some P \<Rightarrow> do {
          ai \<leftarrow> vec_at (m_atomIndices gs) i;
          d \<leftarrow> vec_at deltas ai;
          r \<leftarrow> vec_at dr2 ai;
          v \<leftarrow> pointP gs i d r indexMO;
          Some (tmp + v) }
      | Some D \<Rightarrow> do {
          ai \<leftarrow> vec_at (m_atomIndices gs) i;
          d \<leftarrow> vec_at deltas ai;
          r \<leftarrow> vec_at dr2 ai;
          v \<leftarrow> pointD gs i d r indexMO;
          Some (tmp + v) }
      | Some D5 \<Rightarrow> do {
          ai \<leftarrow> vec_at (m_atomIndices gs) i;
          d \<leftarrow> vec_at deltas ai;
          r \<leftarrow> vec_at dr2 ai;
          v \<leftarrow> pointD5 gs i d r indexMO;
          Some (tmp + v) }
      | Some _ \<Rightarrow> Some tmp)"

definition point_deltas :: "GaussianSet \<Rightarrow> Cube \<Rightarrow> nat \<Rightarrow> (Vector3d list \<times> real list) option"
  where
  \<comment> \<open>the first half of \<open>processPoint\<close>: the position in Bohr and, for every atom, the
      offset from it and the squared distance\<close>
  "point_deltas gs cube i =
     (let atomsSize = m_numAtoms gs;
          p = vec_scale (position cube i) ANGSTROM_TO_BOHR
      in forM [0..<atomsSize] (deltas_step gs p) ([], []))"

definition processPoint :: "GaussianSet \<Rightarrow> Cube \<Rightarrow> GaussianShell \<Rightarrow> Cube option" where
  "processPoint gs cube shell = do {
     let basisSize = length (m_symmetry gs);
     let indexMO = unat (state shell - 1);
     (deltas, dr2) \<leftarrow> point_deltas gs cube (pos shell);
     tmp \<leftarrow> forM [0..<basisSize] (shell_value gs deltas dr2 indexMO) 0;
     setValue cube (pos shell) tmp
   }"

subsection \<open>The evaluator\<close>

text \<open>
  \<open>calculateCubeMO\<close> and \<open>calculateCubeDensity\<close> return as soon as the map over the
  work array is dispatched. Their model returns the flag, the basis, the cube and the
  diagnostics at that moment; \<open>mapped\<close> is the effect of the dispatched map once every
  entry has been processed, and \<open>calculationComplete\<close> is the slot run after it.
\<close>

definition work_array :: "nat \<Rightarrow> 32 word \<Rightarrow> GaussianShell list" where
  "work_array n st = map (\<lambda>i. \<lparr>pos = i, state = st\<rparr>) [0..<n]"

definition calculateCubeMO ::
  "GaussianSet \<Rightarrow> Cube \<Rightarrow> 32 word \<Rightarrow> (bool \<times> GaussianSet \<times> Cube \<times> string list) option" where
  "calculateCubeMO gs cube st =
     (if st < 1 \<or> st > word_of_nat (rows (m_moMatrix gs)) then Some (False, gs, cube, [])
      else do {
        (gs1, out) \<leftarrow> initCalculation gs;
        let gs2 = gs1\<lparr>m_gaussianShells := Some (work_array (length (cube_data cube)) st)\<rparr>;
        cube1 \<leftarrow> lockForWrite cube;
        let cube2 = setCubeType MO cube1;
        Some (True, gs2, cube2, out)
      })"

definition density_not_set :: string where
  "density_not_set = ''Cannot calculate density -- density matrix not set.''"

definition calculateCubeDensity ::
  "GaussianSet \<Rightarrow> Cube \<Rightarrow> (bool \<times> GaussianSet \<times> Cube \<times> string list) option" where
  \<comment> \<open>the entries of the density work array leave \<open>state\<close> unset; the model writes 0\<close>
  "calculateCubeDensity gs cube =
     (if matrix_size (m_density gs) = 0 then Some (False, gs, cube, [density_not_set])
      else do {
        (gs1, out) \<leftarrow> initCalculation gs;
        let gs2 = gs1\<lparr>m_gaussianShells := Some (work_array (length (cube_data cube)) 0)\<rparr>;
        cube1 \<leftarrow> lockForWrite cube;
        let cube2 = setCubeType ElectronDensity cube1;
        Some (True, gs2, cube2, out)
      })"

fun mapped ::
  "(GaussianSet \<Rightarrow> Cube \<Rightarrow> GaussianShell \<Rightarrow> Cube option) \<Rightarrow> GaussianSet \<Rightarrow> GaussianShell list
     \<Rightarrow> Cube \<Rightarrow> Cube option" where
  \<comment> \<open>\<open>QtConcurrent::map(*m_gaussianShells, f)\<close>, every entry done; the entries write
      distinct samples, so the order is immaterial\<close>
  "mapped f gs [] cube = Some cube"
| "mapped f gs (shell # rest) cube =
     (case f gs cube shell of None \<Rightarrow> None | Some cube' \<Rightarrow> mapped f gs rest cube')"

definition calculationComplete :: "GaussianSet \<Rightarrow> Cube \<Rightarrow> (GaussianSet \<times> Cube) option" where
  "calculationComplete gs cube =
     (case m_gaussianShells gs of
        None \<Rightarrow> None
      | Some [] \<Rightarrow> None
      | Some (shell # rest) \<Rightarrow> Some (gs\<lparr>m_gaussianShells := None\<rparr>, unlock cube))"

subsection \<open>The S kernel without its shortcut\<close>

text \<open>
  For the comparison with the shortcut: \<open>pointS\<close> with the test on \<open>isSmall\<close> removed,
  and the evaluation at one grid point that calls it.
\<close>

definition pointS_full :: "GaussianSet \<Rightarrow> nat \<Rightarrow> real \<Rightarrow> nat \<Rightarrow> real option" where
  "pointS_full gs moIndex dr2 indexMO = do {
     mo \<leftarrow> vec_at (m_moIndices gs) moIndex;
     c \<leftarrow> coeffRef (m_moMatrix gs) mo indexMO;
     tmp \<leftarrow> pointS_loop gs moIndex dr2;
     Some (tmp * c)
   }"

definition shell_value_full ::
  "GaussianSet \<Rightarrow> Vector3d list \<Rightarrow> real list \<Rightarrow> nat \<Rightarrow> nat \<Rightarrow> real \<Rightarrow> real option" where
  "shell_value_full gs deltas dr2 indexMO i tmp =
     (case vec_at (m_symmetry gs) i of
        Some S \<Rightarrow> do {
          ai \<leftarrow> vec_at (m_atomIndices gs) i;
          r \<leftarrow> vec_at dr2 ai;
          v \<leftarrow> pointS_full gs i r indexMO;
          Some (tmp + v) }
      | _ \<Rightarrow> shell_value gs deltas dr2 indexMO i tmp)"

definition processPoint_full :: "GaussianSet \<Rightarrow> Cube \<Rightarrow> GaussianShell \<Rightarrow> Cube option" where
  "processPoint_full gs cube shell = do {
     let basisSize = length (m_symmetry gs);
     let indexMO = unat (state shell - 1);
     (deltas, dr2) \<leftarrow> point_deltas gs cube (pos shell);
     tmp \<leftarrow> forM [0..<basisSize] (shell_value_full gs deltas dr2 indexMO) 0;
     setValue cube (pos shell) tmp
   }"

subsection \<open>Histories of a basis\<close>

text \<open>
  The bases that can arise without a call of \<open>addMOs\<close>, and those that can arise
  without a call of \<open>setDensityMatrix\<close>: from the constructor by the other public
  operations.
\<close>

inductive no_addMOs :: "GaussianSet \<Rightarrow> bool" where
  nm_new: "no_addMOs new_GaussianSet"
| nm_addAtom: "no_addMOs gs \<Longrightarrow> no_addMOs (fst (addAtom p zn gs))"
| nm_addBasis: "no_addMOs gs \<Longrightarrow> no_addMOs (fst (addBasis atom t gs))"
| nm_addGTO: "no_addMOs gs \<Longrightarrow> no_addMOs (fst (addGTO u c a gs))"
| nm_addMO: "no_addMOs gs \<Longrightarrow> no_addMOs (addMO v gs)"
| nm_setDensityMatrix: "no_addMOs gs \<Longrightarrow> no_addMOs (fst (setDensityMatrix m gs))"
| nm_clone: "no_addMOs gs \<Longrightarrow> no_addMOs (clone gs)"
| nm_initCalculation:
    "no_addMOs gs \<Longrightarrow> initCalculation gs = Some (gs', out) \<Longrightarrow> no_addMOs gs'"
| nm_calculateCubeMO:
    "no_addMOs gs \<Longrightarrow> calculateCubeMO gs cube st = Some (ok, gs', cube', out)
       \<Longrightarrow> no_addMOs gs'"
| nm_calculateCubeDensity:
    "no_addMOs gs \<Longrightarrow> calculateCubeDensity gs cube = Some (ok, gs', cube', out)
       \<Longrightarrow> no_addMOs gs'"
| nm_calculationComplete:
    "no_addMOs gs \<Longrightarrow> calculationComplete gs cube = Some (gs', cube') \<Longrightarrow> no_addMOs gs'"

inductive no_setDensityMatrix :: "GaussianSet \<Rightarrow> bool" where
  nd_new: "no_setDensityMatrix new_GaussianSet"
| nd_addAtom: "no_setDensityMatrix gs \<Longrightarrow> no_setDensityMatrix (fst (addAtom p zn gs))"
| nd_addBasis: "no_setDensityMatrix gs \<Longrightarrow> no_setDensityMatrix (fst (addBasis atom t gs))"
| nd_addGTO: "no_setDensityMatrix gs \<Longrightarrow> no_setDensityMatrix (fst (addGTO u c a gs))"
| nd_addMOs:
    "no_setDensityMatrix gs \<Longrightarrow> addMOs mem mos gs = Some gs' \<Longrightarrow> no_setDensityMatrix gs'"
| nd_addMO: "no_setDensityMatrix gs \<Longrightarrow> no_setDensityMatrix (addMO v gs)"
| nd_clone: "no_setDensityMatrix gs \<Longrightarrow> no_setDensityMatrix (clone gs)"
| nd_initCalculation:
    "no_setDensityMatrix gs \<Longrightarrow> initCalculation gs = Some (gs', out)
       \<Longrightarrow> no_setDensityMatrix gs'"
| nd_calculateCubeMO:
    "no_setDensityMatrix gs \<Longrightarrow> calculateCubeMO gs cube st = Some (ok, gs', cube', out)
       \<Longrightarrow> no_setDensityMatrix gs'"
| nd_calculateCubeDensity:
    "no_setDensityMatrix gs \<Longrightarrow> calculateCubeDensity gs cube = Some (ok, gs', cube', out)
       \<Longrightarrow> no_setDensityMatrix gs'"
| nd_calculationComplete:
    "no_setDensityMatrix gs \<Longrightarrow> calculationComplete gs cube = Some (gs', cube')
       \<Longrightarrow> no_setDensityMatrix gs'"

definition matrices :: "GaussianSet \<Rightarrow> MatrixXd \<times> MatrixXd" where
  "matrices gs = (m_moMatrix gs, m_density gs)"

subsection \<open>A whole computation, and concrete bases and cubes\<close>

definition completed_MO ::
  "(GaussianSet \<Rightarrow> Cube \<Rightarrow> GaussianShell \<Rightarrow> Cube option) \<Rightarrow> GaussianSet \<Rightarrow> Cube \<Rightarrow> 32 word
     \<Rightarrow> (bool \<times> GaussianSet \<times> Cube \<times> string list) option" where
  \<comment> \<open>\<open>calculateCubeMO\<close>, then the dispatched map of \<open>f\<close> run to its end, then
      \<open>calculationComplete\<close>; \<open>f\<close> is \<open>processPoint\<close> in the source\<close>
  "completed_MO f gs cube st = do {
     (ok, gs1, cube1, out) \<leftarrow> calculateCubeMO gs cube st;
     if ok then do {
       work \<leftarrow> m_gaussianShells gs1;
       cube2 \<leftarrow> mapped f gs1 work cube1;
       (gs3, cube3) \<leftarrow> calculationComplete gs1 cube2;
       Some (ok, gs3, cube3, out)
     } else Some (ok, gs1, cube1, out)
   }"

definition point_cube :: "Vector3d \<Rightarrow> Cube" where
  \<comment> \<open>a free cube with the single sample at \<open>p\<close> (in \<open>Angstrom\<close>)\<close>
  "point_cube p =
     \<lparr>cube_origin = p, cube_spacing = Vector3d 1 1 1, cube_dims = (1, 1, 1),
      cube_data = [0], cube_type = NoType, cube_lock = Unlocked\<rparr>"

definition MO_at ::
  "(GaussianSet \<Rightarrow> Cube \<Rightarrow> GaussianShell \<Rightarrow> Cube option) \<Rightarrow> GaussianSet option \<Rightarrow> Vector3d
     \<Rightarrow> 32 word \<Rightarrow> real option" where
  \<comment> \<open>the sample that a whole computation of state \<open>st\<close> writes for the point \<open>p\<close>\<close>
  "MO_at f b p st = do {
     gs \<leftarrow> b;
     (ok, gs', cube', out) \<leftarrow> completed_MO f gs (point_cube p) st;
     if ok then vec_at (cube_data cube') 0 else None
   }"

definition bohr_norm :: "Vector3d \<Rightarrow> real" where
  \<comment> \<open>the distance from the origin, in Bohr, of a point given in \<open>Angstrom\<close>\<close>
  "bohr_norm p = sqrt (squaredNorm (vec_scale p ANGSTROM_TO_BOHR))"

definition origin :: Vector3d where
  "origin = Vector3d 0 0 0"

definition one_shell :: "Vector3d \<Rightarrow> orbital \<Rightarrow> GaussianSet" where
  \<comment> \<open>one hydrogen atom at \<open>p\<close> carrying one shell with one primitive, \<open>c = 1.0\<close> and
      \<open>\<alpha> = 1.0\<close>\<close>
  "one_shell p t =
     (let (g1, atom) = addAtom p 1 new_GaussianSet;
          (g2, shell) = addBasis atom t g1;
          (g3, k) = addGTO shell 1 1 g2
      in g3)"

definition two_shells :: "orbital \<Rightarrow> orbital \<Rightarrow> GaussianSet" where
  \<comment> \<open>one atom at the origin carrying two shells, each with one primitive\<close>
  "two_shells t1 t2 =
     (let (g1, shell) = addBasis 0 t2 (one_shell origin t1);
          (g2, k) = addGTO shell 1 1 g1
      in g2)"

definition zero_mem :: "nat \<Rightarrow> real" where
  \<comment> \<open>fresh storage that happens to hold zeros\<close>
  "zero_mem k = 0"

definition init_view ::
  "GaussianSet \<Rightarrow> (nat list \<times> nat list \<times> real list \<times> string list) option" where
  \<comment> \<open>what the normalization pass leaves in \<open>m_moIndices\<close>, \<open>m_cIndices\<close>, \<open>m_gtoCN\<close>,
      and its diagnostics\<close>
  "init_view gs =
     map_option (\<lambda>(g, out). (m_moIndices g, m_cIndices g, m_gtoCN g, out)) (initCalculation gs)"

definition mo_entry :: "GaussianSet option \<Rightarrow> nat \<Rightarrow> nat \<Rightarrow> real option" where
  \<comment> \<open>coefficient \<open>(i, j)\<close> of the MO matrix of a basis\<close>
  "mo_entry b i j = Option.bind b (\<lambda>gs. coeffRef (m_moMatrix gs) i j)"

definition sevens_mem :: "nat \<Rightarrow> real" where
  \<comment> \<open>fresh storage that happens to hold sevens\<close>
  "sevens_mem k = 7"

definition wf_matrix :: "MatrixXd \<Rightarrow> bool" where
  \<comment> \<open>the array of an Eigen matrix has \<open>rows * cols\<close> cells\<close>
  "wf_matrix m = (length (coeffs m) = rows m * cols m)"

definition written :: "real list \<Rightarrow> nat \<Rightarrow> real list \<Rightarrow> real list" where
  \<comment> \<open>the array \<open>xs\<close> with its first \<open>l\<close> cells overwritten from \<open>mos\<close>\<close>
  "written mos l xs = map (\<lambda>k. if k < l then mos ! k else xs ! k) [0..<length xs]"

definition tiny_free :: "GaussianSet \<Rightarrow> nat \<Rightarrow> nat \<Rightarrow> bool" where
  \<comment> \<open>shell \<open>i\<close> is no S shell, or its coefficient in column \<open>indexMO\<close> is 0 or is not
      accepted by \<open>isSmall\<close> (or cannot be read)\<close>
  "tiny_free gs indexMO i =
     (vec_at (m_symmetry gs) i = Some S \<longrightarrow>
        (case vec_at (m_moIndices gs) i of
           None \<Rightarrow> True
         | Some mo \<Rightarrow>
             (case coeffRef (m_moMatrix gs) mo indexMO of
                None \<Rightarrow> True
              | Some c \<Rightarrow> c = 0 \<or> \<not> isSmall c)))"

definition no_tiny_S :: "GaussianSet \<Rightarrow> nat \<Rightarrow> bool" where
  \<comment> \<open>no S shell has, in column \<open>indexMO\<close>, a coefficient that \<open>isSmall\<close> accepts other
      than 0\<close>
  "no_tiny_S gs indexMO = list_all (tiny_free gs indexMO) [0..<length (m_symmetry gs)]"

definition normalized_S :: GaussianSet where
  \<comment> \<open>the basis \<open>one_shell origin S\<close> after \<open>addMOs\<close> of \<open>[1]\<close> and the normalization pass\<close>
  "normalized_S =
     \<lparr>m_numMOs = 1, m_numAtoms = 1, m_init = True,
      m_molecule = [\<lparr>atomicNumber = 1, atom_pos = origin\<rparr>],
      m_symmetry = [S], m_atomIndices = [0], m_moIndices = [0], m_gtoIndices = [0, 1],
      m_cIndices = [0], m_gtoA = [1], m_gtoC = [1], m_gtoCN = [0.71270547],
      m_moMatrix = \<lparr>rows = 1, cols = 1, coeffs = [1]\<rparr>, m_density = empty_matrix,
      m_gaussianShells = None\<rparr>"

section \<open>Verification\<close>

subsection \<open>What the normalization pass leaves alone\<close>

lemma forM_invariant:
  assumes "\<And>i s s'. body i s = Some s' \<Longrightarrow> f s' = f s"
    and "forM xs body s = Some s'"
  shows "f s' = f s"
  using assms(2)
proof (induction xs arbitrary: s)
  case Nil
  then show ?case by simp
next
  case (Cons i xs)
  then obtain s1 where b: "body i s = Some s1" and r: "forM xs body s1 = Some s'"
    by (auto split: option.splits)
  from Cons.IH [OF r] assms(1) [OF b] show ?case by simp
qed

lemma push_S_matrices: "push_S j gs = Some gs' \<Longrightarrow> matrices gs' = matrices gs"
  by (auto simp: push_S_def matrices_def split: Option.bind_splits)

lemma push_P_matrices: "push_P j gs = Some gs' \<Longrightarrow> matrices gs' = matrices gs"
  by (auto simp: push_P_def matrices_def Let_def split: Option.bind_splits)

lemma push_D_matrices: "push_D j gs = Some gs' \<Longrightarrow> matrices gs' = matrices gs"
  by (auto simp: push_D_def matrices_def Let_def split: Option.bind_splits)

lemma push_D5_matrices: "push_D5 j gs = Some gs' \<Longrightarrow> matrices gs' = matrices gs"
  by (auto simp: push_D5_def matrices_def Let_def split: Option.bind_splits)

lemma init_counted_matrices:
  assumes "\<And>j g g'. push j g = Some g' \<Longrightarrow> matrices g' = matrices g"
    and "init_counted i n push gs k = Some (gs', k')"
  shows "matrices gs' = matrices gs"
proof -
  from assms(2) obtain mo lo hi where
    f: "forM [lo..<hi] push
          (gs\<lparr>m_moIndices := mo, m_cIndices := m_cIndices gs @ [length (m_gtoCN gs)]\<rparr>) = Some gs'"
    by (auto simp: init_counted_def Let_def split: Option.bind_splits)
  from forM_invariant [of push matrices, OF assms(1) f] show ?thesis
    by (simp add: matrices_def)
qed

lemma init_shell_matrices:
  assumes "init_shell i (gs, k, sk, out) = Some (gs', k', sk', out')"
  shows "matrices gs' = matrices gs"
proof (cases "vec_at (m_symmetry gs) i")
  case None
  with assms show ?thesis by (simp add: init_shell_def)
next
  case (Some t)
  show ?thesis
  proof (cases t)
    case S
    with Some assms show ?thesis
      by (auto simp: init_shell_def intro: init_counted_matrices [of push_S, OF push_S_matrices])
  next
    case P
    with Some assms show ?thesis
      by (auto simp: init_shell_def intro: init_counted_matrices [of push_P, OF push_P_matrices])
  next
    case D
    with Some assms show ?thesis
      by (auto simp: init_shell_def intro: init_counted_matrices [of push_D, OF push_D_matrices])
  next
    case D5
    with Some assms show ?thesis
      by (auto simp: init_shell_def intro: init_counted_matrices [of push_D5, OF push_D5_matrices])
  qed (use Some assms in \<open>auto simp: init_shell_def matrices_def Let_def split: Option.bind_splits\<close>)
qed

lemma initCalculation_matrices:
  assumes "initCalculation gs = Some (gs', out)"
  shows "matrices gs' = matrices gs"
proof (cases "m_init gs")
  case True
  with assms show ?thesis by (simp add: initCalculation_def)
next
  case False
  define g4 where "g4 = gs\<lparr>m_numAtoms := numAtoms (m_molecule gs), m_gtoCN := [],
      m_moIndices := resize_vec (length (m_symmetry gs)) (m_moIndices gs),
      m_gtoIndices := m_gtoIndices gs @ [length (m_gtoA gs)]\<rparr>"
  from False assms obtain g5 k sk where
    f: "forM [0..<length (m_symmetry gs)] init_shell (g4, 0, 0, []) = Some (g5, k, sk, out)"
    and g': "gs' = g5\<lparr>m_init := True\<rparr>"
    by (auto simp: initCalculation_def Let_def g4_def split: Option.bind_splits)
  have "(matrices \<circ> fst) (g5, k, sk, out)
          = (matrices \<circ> fst) (g4, 0::nat, 0::nat, []::string list)"
    by (rule forM_invariant [OF _ f]) (auto dest: init_shell_matrices)
  with g' show ?thesis by (simp add: matrices_def g4_def)
qed

subsection \<open>Rejection of a state without a column\<close>

text \<open>
  C2. \<open>calculateCubeMO\<close> called with a state outside \<open>[1, numMOs()]\<close> returns false at
  once, for every basis and every cube: the basis is not normalized, no work array is
  built, and the cube comes back as it was, its lock and its type tag included. State 0
  and state \<open>numMOs() + 1\<close> are two such states.
\<close>

theorem computeMO_out_of_range:
  "(st < 1 \<or> numMOs gs < st \<longrightarrow> calculateCubeMO gs cube st = Some (False, gs, cube, []))
   \<and> calculateCubeMO gs cube 0 = Some (False, gs, cube, [])
   \<and> calculateCubeMO gs cube (numMOs gs + 1) = Some (False, gs, cube, [])"
proof -
  have a: "calculateCubeMO gs cube st = Some (False, gs, cube, [])"
    if "st < 1 \<or> numMOs gs < st" for st
    using that by (simp add: calculateCubeMO_def numMOs_def)
  have "numMOs gs + 1 = 0 \<or> numMOs gs < numMOs gs + 1"
    by (metis inc_less_eq_self_iff_eq not_le add_neg_numeral_special(8))
  then have "numMOs gs + 1 < 1 \<or> numMOs gs < numMOs gs + 1"
    by (auto simp: word_less_1)
  with a [of 0] a [of "numMOs gs + 1"] a [of st] show ?thesis by simp
qed

theorem computeMO_out_of_range_witness:
  "((2::32 word) < 1 \<or> numMOs new_GaussianSet < 2)
   \<and> calculateCubeMO new_GaussianSet (point_cube origin) 2 =
       Some (False, new_GaussianSet, point_cube origin, [])"
proof -
  have h: "numMOs new_GaussianSet < 2"
    by (simp add: numMOs_def new_GaussianSet_def empty_matrix_def)
  with computeMO_out_of_range [of 2 new_GaussianSet "point_cube origin"]
  show ?thesis by simp
qed

subsection \<open>The accessor \<open>numMOs\<close> before \<open>addMOs\<close>\<close>

lemma no_addMOs_rows: "no_addMOs gs \<Longrightarrow> rows (m_moMatrix gs) = 0"
proof (induction rule: no_addMOs.induct)
  case nm_new
  show ?case by (simp add: new_GaussianSet_def empty_matrix_def)
next
  case (nm_initCalculation gs gs' out)
  from initCalculation_matrices [OF nm_initCalculation.hyps(2)] nm_initCalculation.IH
  show ?case by (simp add: matrices_def)
next
  case (nm_calculateCubeMO gs cube st ok gs' cube' out)
  then show ?case
    by (auto simp: calculateCubeMO_def Let_def word_gt_0 split: if_splits)
next
  case (nm_calculateCubeDensity gs cube ok gs' cube' out)
  then show ?case
    by (auto simp: calculateCubeDensity_def Let_def matrices_def
        split: if_splits Option.bind_splits dest!: initCalculation_matrices)
next
  case (nm_calculationComplete gs cube gs' cube')
  then show ?case
    by (auto simp: calculationComplete_def split: option.splits list.splits)
qed (simp_all add: addAtom_def addBasis_def addGTO_def addMO_def setDensityMatrix_def
      clone_def Let_def new_GaussianSet_def empty_matrix_def)

text \<open>
  C10. \<open>numMOs()\<close> is the number of rows of the MO matrix, not the component count
  \<open>m_numMOs\<close> that \<open>addBasis\<close> maintains. On every basis that has not seen \<open>addMOs\<close>
  it is 0, whatever shells were added, and \<open>calculateCubeMO\<close> returns false for every
  state, leaving the basis and the cube untouched.
\<close>

theorem numMOs_before_addMOs:
  assumes "no_addMOs gs"
  shows "numMOs gs = word_of_nat (rows (m_moMatrix gs)) \<and> numMOs gs = 0
         \<and> calculateCubeMO gs cube st = Some (False, gs, cube, [])"
proof -
  have r: "rows (m_moMatrix gs) = 0" using assms by (rule no_addMOs_rows)
  have "st < 1 \<or> 0 < st" by (metis word_less_1 word_neq_0_conv)
  with r show ?thesis by (auto simp: numMOs_def calculateCubeMO_def)
qed

theorem numMOs_before_addMOs_witness:
  "no_addMOs (one_shell origin S)
   \<and> m_numMOs (one_shell origin S) = 1
   \<and> numMOs (one_shell origin S) = 0
   \<and> calculateCubeMO (one_shell origin S) (point_cube origin) 1 =
       Some (False, one_shell origin S, point_cube origin, [])"
proof -
  have h: "no_addMOs (one_shell origin S)"
    unfolding one_shell_def Let_def split_def
    by (intro no_addMOs.intros)
  have "m_numMOs (one_shell origin S) = 1"
    by (simp add: one_shell_def addAtom_def addBasis_def addGTO_def Let_def new_GaussianSet_def)
  with h numMOs_before_addMOs [OF h, of "point_cube origin" 1] show ?thesis
    by blast
qed

subsection \<open>Density without a density matrix\<close>

lemma no_setDensityMatrix_density:
  "no_setDensityMatrix gs \<Longrightarrow> m_density gs = empty_matrix"
proof (induction rule: no_setDensityMatrix.induct)
  case nd_new
  show ?case by (simp add: new_GaussianSet_def)
next
  case (nd_addMOs gs mem mos gs')
  then show ?case
    by (auto simp: addMOs_def Let_def split: if_splits option.splits)
next
  case (nd_initCalculation gs gs' out)
  from initCalculation_matrices [OF nd_initCalculation.hyps(2)] nd_initCalculation.IH
  show ?case by (simp add: matrices_def)
next
  case (nd_calculateCubeMO gs cube st ok gs' cube' out)
  then show ?case
    by (auto simp: calculateCubeMO_def Let_def matrices_def
        split: if_splits Option.bind_splits dest!: initCalculation_matrices)
next
  case (nd_calculateCubeDensity gs cube ok gs' cube' out)
  then show ?case
    by (auto simp: calculateCubeDensity_def Let_def matrices_def
        split: if_splits Option.bind_splits dest!: initCalculation_matrices)
next
  case (nd_calculationComplete gs cube gs' cube')
  then show ?case
    by (auto simp: calculationComplete_def split: option.splits list.splits)
qed (simp_all add: addAtom_def addBasis_def addGTO_def addMO_def
      clone_def Let_def new_GaussianSet_def)

text \<open>
  C9. On a basis that has never seen \<open>setDensityMatrix\<close>, \<open>calculateCubeDensity\<close>
  returns false and emits one diagnostic line; the basis is not normalized, no work
  array is built and the cube comes back as it was, lock and type tag included.
\<close>

theorem computeDensity_without_matrix:
  assumes "no_setDensityMatrix gs"
  shows "calculateCubeDensity gs cube = Some (False, gs, cube, [density_not_set])"
  using no_setDensityMatrix_density [OF assms]
  by (simp add: calculateCubeDensity_def matrix_size_def empty_matrix_def)

theorem computeDensity_without_matrix_witness:
  "no_setDensityMatrix (one_shell origin S)
   \<and> calculateCubeDensity (one_shell origin S) (point_cube origin) =
       Some (False, one_shell origin S, point_cube origin, [density_not_set])"
proof -
  have h: "no_setDensityMatrix (one_shell origin S)"
    unfolding one_shell_def Let_def split_def
    by (intro no_setDensityMatrix.intros(1-4))
  with computeDensity_without_matrix [OF h, of "point_cube origin"] show ?thesis by simp
qed

subsection \<open>Evaluation of concrete bases\<close>

lemmas builders = one_shell_def two_shells_def addAtom_def addBasis_def addGTO_def addMOs_def
  new_GaussianSet_def molecule_addAtom_def numAtoms_def Let_def resize_matrix_def
  empty_matrix_def addMOs_body_def vec_at_def set_coeffRef_def origin_def zero_mem_def
  upt_conv_Cons

lemmas inits = initCalculation_def init_shell_def init_counted_def push_S_def push_P_def
  resize_vec_def vec_set_def init_view_def

lemmas evals = MO_at_def completed_MO_def calculateCubeMO_def point_cube_def lockForWrite_def
  work_array_def setCubeType_def processPoint_def point_deltas_def deltas_step_def
  shell_value_def pointS_def pointS_loop_def pointS_step_def pointP_def pointP_step_def
  coeffRef_def isSmall_def setValue_def position_def atomPos_def calculationComplete_def
  unlock_def vec_scale_def vec_sub_def squaredNorm_def

lemma S_value:
  "MO_at processPoint (addMOs mem [1] (one_shell origin S)) p 1 =
     Some (0.71270547 * exp (- squaredNorm (vec_scale p ANGSTROM_TO_BOHR)))"
  by (cases p) (simp add: builders inits evals)

lemma P_value:
  "MO_at processPoint (addMOs mem [1, 0, 0] (one_shell origin P)) p 1 =
     Some (1.425410941 * (vec_x p * ANGSTROM_TO_BOHR)
             * exp (- squaredNorm (vec_scale p ANGSTROM_TO_BOHR)))"
  by (cases p) (simp add: builders inits evals)

lemma S_rotation:
  "MO_at processPoint (addMOs mem [1] (one_shell origin S)) (Vector3d d 0 0) 1 =
   MO_at processPoint (addMOs mem [1] (one_shell origin S)) (Vector3d 0 0 d) 1"
  by (simp add: S_value squaredNorm_def vec_scale_def)

text \<open>
  C1. One hydrogen atom at the origin, one S shell with one primitive (\<open>\<alpha> = 1.0\<close>,
  \<open>c = 1.0\<close>), the 1 by 1 identity as MO matrix: the value that a whole computation of
  state 1 writes for a point at distance \<open>r\<close> Bohr from the origin is within \<open>1e-12\<close> of
  \<open>\<alpha>\<^sup>3\<^sup>/\<^sup>4 * 0.71270547 * exp (- \<alpha> * r\<^sup>2)\<close> (in real arithmetic the two are equal).
\<close>

theorem analytic_S_value:
  "\<exists>v. MO_at processPoint (addMOs mem [1] (one_shell origin S)) p 1 = Some v
       \<and> \<bar>v - 1 powr (3 / 4) * 0.71270547 * exp (- (1 * (bohr_norm p)\<^sup>2))\<bar> \<le> 1 / 10 ^ 12"
proof -
  have "0 \<le> squaredNorm (vec_scale p ANGSTROM_TO_BOHR)"
    by (simp add: squaredNorm_def)
  then have "(bohr_norm p)\<^sup>2 = squaredNorm (vec_scale p ANGSTROM_TO_BOHR)"
    by (simp add: bohr_norm_def)
  then have "\<bar>0.71270547 * exp (- squaredNorm (vec_scale p ANGSTROM_TO_BOHR))
          - 1 powr (3 / 4) * 0.71270547 * exp (- (1 * (bohr_norm p)\<^sup>2))\<bar> \<le> 1 / 10 ^ 12"
    by simp
  with S_value [of mem p] show ?thesis by blast
qed

text \<open>
  C7. One atom at the origin, one P shell with one primitive (\<open>\<alpha> = 1.0\<close>, \<open>c = 1.0\<close>),
  MO coefficients \<open>(1, 0, 0)\<close> for state 1: for every \<open>d\<close> the value at \<open>(d, 0, 0)\<close> is the
  negation of the value at \<open>(- d, 0, 0)\<close>, and the values at \<open>(0, d, 0)\<close> and \<open>(0, 0, d)\<close>
  are zero.
\<close>

theorem P_shell_symmetry:
  "\<exists>v. MO_at processPoint (addMOs mem [1, 0, 0] (one_shell origin P)) (Vector3d d 0 0) 1 = Some v
       \<and> MO_at processPoint (addMOs mem [1, 0, 0] (one_shell origin P)) (Vector3d (- d) 0 0) 1
           = Some (- v)
       \<and> MO_at processPoint (addMOs mem [1, 0, 0] (one_shell origin P)) (Vector3d 0 d 0) 1
           = Some 0
       \<and> MO_at processPoint (addMOs mem [1, 0, 0] (one_shell origin P)) (Vector3d 0 0 d) 1
           = Some 0"
proof -
  let ?v = "1.425410941 * (d * ANGSTROM_TO_BOHR)
              * exp (- squaredNorm (vec_scale (Vector3d d 0 0) ANGSTROM_TO_BOHR))"
  have "MO_at processPoint (addMOs mem [1, 0, 0] (one_shell origin P)) (Vector3d d 0 0) 1
          = Some ?v"
    by (simp add: P_value)
  moreover
  have "MO_at processPoint (addMOs mem [1, 0, 0] (one_shell origin P)) (Vector3d (- d) 0 0) 1
          = Some (- ?v)"
    by (simp add: P_value squaredNorm_def vec_scale_def)
  moreover
  have "MO_at processPoint (addMOs mem [1, 0, 0] (one_shell origin P)) (Vector3d 0 d 0) 1
          = Some 0"
    by (simp add: P_value)
  moreover
  have "MO_at processPoint (addMOs mem [1, 0, 0] (one_shell origin P)) (Vector3d 0 0 d) 1
          = Some 0"
    by (simp add: P_value)
  ultimately show ?thesis by blast
qed

subsection \<open>The MO matrix after \<open>addMOs\<close>\<close>

lemma length_written [simp]: "length (written mos l xs) = length xs"
  by (simp add: written_def)

lemma written_0 [simp]: "written mos 0 xs = xs"
  by (simp add: written_def map_nth)

lemma written_nth:
  "k < length xs \<Longrightarrow> written mos l xs ! k = (if k < l then mos ! k else xs ! k)"
  by (simp add: written_def)

lemma written_step:
  assumes "l < length xs"
  shows "(written mos l xs)[l := mos ! l] = written mos (Suc l) xs"
proof (rule nth_equalityI)
  show "length ((written mos l xs)[l := mos ! l]) = length (written mos (Suc l) xs)"
    by simp
next
  fix k
  assume "k < length ((written mos l xs)[l := mos ! l])"
  then have k: "k < length xs" by simp
  then show "(written mos l xs)[l := mos ! l] ! k = written mos (Suc l) xs ! k"
    by (cases "k = l") (auto simp: written_nth nth_list_update)
qed

lemma forM_append:
  "forM (xs @ ys) body s = (case forM xs body s of None \<Rightarrow> None | Some s' \<Rightarrow> forM ys body s')"
  by (induction xs arbitrary: s) (auto split: option.splits)

lemma column_index_bound:
  fixes i j n :: nat
  assumes "i < n" and "j < c"
  shows "i + j * n < c * n"
proof -
  from assms(2) have "Suc j * n \<le> c * n" by (intro mult_le_mono1) simp
  with assms(1) show ?thesis by simp
qed

lemma column_index_iff:
  fixes i j n :: nat
  assumes "i < n"
  shows "i + j * n < c * n \<longleftrightarrow> j < c"
proof
  assume "j < c"
  with assms show "i + j * n < c * n" by (rule column_index_bound)
next
  assume a: "i + j * n < c * n"
  show "j < c"
  proof (rule ccontr)
    assume "\<not> j < c"
    then have "c * n \<le> j * n" by (intro mult_le_mono1) simp
    with a show False by simp
  qed
qed

lemma addMOs_inner:
  assumes "rows m = n" and "cols m = n" and "length xs0 = n * n" and "j < n"
    and "coeffs m = written mos (j * n) xs0" and "k \<le> n" and "j * n + k \<le> length mos"
  shows "forM [0..<k] (addMOs_body mos n j) m
           = Some (m\<lparr>coeffs := written mos (j * n + k) xs0\<rparr>)"
  using assms(6,7)
proof (induction k)
  case 0
  with assms(5) show ?case by simp
next
  case (Suc k)
  let ?m1 = "m\<lparr>coeffs := written mos (j * n + k) xs0\<rparr>"
  from Suc have ih: "forM [0..<k] (addMOs_body mos n j) m = Some ?m1" by simp
  from Suc.prems have kn: "k < n" and km: "k + j * n < length mos" by simp_all
  from kn assms(4) have "k + j * n < n * n" by (rule column_index_bound)
  with assms(3) have kx: "j * n + k < length xs0" by (simp add: add.commute)
  have "addMOs_body mos n j k ?m1 = Some (m\<lparr>coeffs := written mos (j * n + Suc k) xs0\<rparr>)"
    using kn km kx assms(1,2,4) written_step [OF kx, of mos]
    by (simp add: addMOs_body_def vec_at_def set_coeffRef_def add.commute)
  with ih show ?case by (simp add: forM_append)
qed

lemma addMOs_outer:
  assumes "rows m = n" and "cols m = n" and "length (coeffs m) = n * n"
    and "c \<le> n" and "c * n \<le> length mos"
  shows "forM [0..<c] (\<lambda>j. forM [0..<n] (addMOs_body mos n j)) m
           = Some (m\<lparr>coeffs := written mos (c * n) (coeffs m)\<rparr>)"
  using assms(4,5)
proof (induction c)
  case 0
  show ?case by simp
next
  case (Suc c)
  let ?m1 = "m\<lparr>coeffs := written mos (c * n) (coeffs m)\<rparr>"
  from Suc have ih: "forM [0..<c] (\<lambda>j. forM [0..<n] (addMOs_body mos n j)) m = Some ?m1"
    by simp
  from Suc.prems have cn: "c < n" and cm: "c * n + n \<le> length mos" by simp_all
  have "forM [0..<n] (addMOs_body mos n c) ?m1
          = Some (?m1\<lparr>coeffs := written mos (c * n + n) (coeffs m)\<rparr>)"
    by (rule addMOs_inner [where ?xs0.0 = "coeffs m"])
       (use assms(1-3) cn cm in simp_all)
  with ih show ?case by (simp add: forM_append add.commute)
qed

lemma wf_resize:
  "wf_matrix m \<Longrightarrow> wf_matrix (resize_matrix mem r c m) \<and> rows (resize_matrix mem r c m) = r
     \<and> cols (resize_matrix mem r c m) = c"
  by (simp add: wf_matrix_def resize_matrix_def)

text \<open>
  The array of the MO matrix has \<open>rows * cols\<close> cells in the new basis, and \<open>addMOs\<close>
  keeps it so; no other operation touches the MO matrix.
\<close>

lemma set_coeffRef_shape:
  "set_coeffRef m i j v = Some m' \<Longrightarrow>
     (rows m', cols m', length (coeffs m')) = (rows m, cols m, length (coeffs m))"
  by (auto simp: set_coeffRef_def split: if_splits)

lemma addMOs_body_shape:
  "addMOs_body mos n j i m = Some m' \<Longrightarrow>
     (rows m', cols m', length (coeffs m')) = (rows m, cols m, length (coeffs m))"
  by (auto simp: addMOs_body_def split: option.splits dest: set_coeffRef_shape)

lemma addMOs_wf:
  assumes "wf_matrix (m_moMatrix gs)" and "addMOs mem mos gs = Some gs'"
  shows "wf_matrix (m_moMatrix gs')"
proof -
  define n where "n = m_numMOs gs"
  define m0 where "m0 = resize_matrix mem n n (m_moMatrix gs)"
  let ?shape = "\<lambda>m. (rows m, cols m, length (coeffs m))"
  from assms(2) obtain m where
    f: "forM [0..<length mos div n] (\<lambda>j. forM [0..<n] (addMOs_body mos n j)) m0 = Some m"
    and g: "m_moMatrix gs' = m"
    by (auto simp: addMOs_def Let_def n_def m0_def split: if_splits option.splits)
  have inner: "?shape b = ?shape a" if "forM [0..<n] (addMOs_body mos n j) a = Some b" for j a b
    by (rule forM_invariant [OF _ that]) (rule addMOs_body_shape)
  have "?shape m = ?shape m0"
    by (rule forM_invariant [OF _ f]) (rule inner)
  moreover from wf_resize [OF assms(1), of mem n n] have "wf_matrix m0"
    by (simp add: m0_def)
  ultimately show ?thesis using g by (simp add: wf_matrix_def)
qed

lemma new_GaussianSet_wf: "wf_matrix (m_moMatrix new_GaussianSet)"
  by (simp add: new_GaussianSet_def empty_matrix_def wf_matrix_def)

text \<open>
  C6, as the code has it. On a basis with \<open>m_numMOs > 0\<close> and an input of at most
  \<open>m_numMOs\<close> columns, \<open>addMOs\<close> returns, the MO matrix is square of side \<open>m_numMOs\<close>,
  and coefficient \<open>(i, j)\<close> is \<open>MOs[i + j * m_numMOs]\<close> for every column \<open>j\<close> below
  \<open>len / m_numMOs\<close>. The columns from that count on are not written: they hold what
  the resized matrix held, that is the previous coefficients when the matrix already
  had \<open>m_numMOs * m_numMOs\<close> of them, and the contents of fresh storage otherwise.
\<close>

theorem addMOs_columns:
  assumes "0 < m_numMOs gs" and "length mos div m_numMOs gs \<le> m_numMOs gs"
    and "wf_matrix (m_moMatrix gs)"
  shows "\<exists>gs'. addMOs mem mos gs = Some gs'
     \<and> rows (m_moMatrix gs') = m_numMOs gs \<and> cols (m_moMatrix gs') = m_numMOs gs
     \<and> (\<forall>i j. i < m_numMOs gs \<and> j < length mos div m_numMOs gs \<longrightarrow>
            coeffRef (m_moMatrix gs') i j = Some (mos ! (i + j * m_numMOs gs)))
     \<and> (\<forall>i j. i < m_numMOs gs \<and> length mos div m_numMOs gs \<le> j \<and> j < m_numMOs gs \<longrightarrow>
            coeffRef (m_moMatrix gs') i j
              = coeffRef (resize_matrix mem (m_numMOs gs) (m_numMOs gs) (m_moMatrix gs)) i j)"
proof -
  define n where "n = m_numMOs gs"
  define c where "c = length mos div n"
  define m0 where "m0 = resize_matrix mem n n (m_moMatrix gs)"
  define m1 where "m1 = m0\<lparr>coeffs := written mos (c * n) (coeffs m0)\<rparr>"
  from wf_resize [OF assms(3), of mem n n]
  have r: "rows m0 = n" "cols m0 = n" and l: "length (coeffs m0) = n * n"
    by (simp_all add: m0_def wf_matrix_def)
  have cn: "c \<le> n" using assms(2) by (simp add: c_def n_def)
  have cm: "c * n \<le> length mos" by (simp add: c_def)
  have loop: "forM [0..<c] (\<lambda>j. forM [0..<n] (addMOs_body mos n j)) m0 = Some m1"
    unfolding m1_def by (rule addMOs_outer [OF r l cn cm])
  have res: "addMOs mem mos gs = Some (gs\<lparr>m_init := False, m_moMatrix := m1\<rparr>)"
    using assms(1) loop
    by (simp add: addMOs_def Let_def n_def [symmetric] c_def [symmetric] m0_def [symmetric])
  have inb: "i + j * n < n * n" if "i < n" "j < n" for i j
    using that by (rule column_index_bound)
  have lo: "coeffRef m1 i j = Some (mos ! (i + j * n))" if "i < n" "j < c" for i j
  proof -
    from that cn have "j < n" by simp
    with that inb [of i j] column_index_bound [OF that] r l show ?thesis
      by (simp add: m1_def coeffRef_def vec_at_def written_nth)
  qed
  have hi: "coeffRef m1 i j = coeffRef m0 i j" if "i < n" "c \<le> j" "j < n" for i j
  proof -
    from that column_index_iff [OF that(1), of j c] have "\<not> i + j * n < c * n" by simp
    with that inb [of i j] r l show ?thesis
      by (simp add: m1_def coeffRef_def vec_at_def written_nth)
  qed
  from res r lo hi show ?thesis
    by (simp add: m1_def n_def [symmetric] c_def [symmetric] m0_def [symmetric])
qed

theorem addMOs_columns_witness:
  "0 < m_numMOs (two_shells S S)
   \<and> length [5, 6 :: real] div m_numMOs (two_shells S S) \<le> m_numMOs (two_shells S S)
   \<and> wf_matrix (m_moMatrix (two_shells S S))
   \<and> (\<exists>gs'. addMOs sevens_mem [5, 6] (two_shells S S) = Some gs'
          \<and> rows (m_moMatrix gs') = 2 \<and> cols (m_moMatrix gs') = 2
          \<and> coeffRef (m_moMatrix gs') 1 0 = Some 6)"
proof -
  have n: "m_numMOs (two_shells S S) = 2"
    by (simp add: builders)
  have h1: "0 < m_numMOs (two_shells S S)"
    and h2: "length [5, 6 :: real] div m_numMOs (two_shells S S) \<le> m_numMOs (two_shells S S)"
    by (simp_all add: n)
  have h3: "wf_matrix (m_moMatrix (two_shells S S))"
    by (simp add: builders wf_matrix_def)
  from addMOs_columns [OF h1 h2 h3, of sevens_mem] obtain gs' where
    g: "addMOs sevens_mem [5, 6] (two_shells S S) = Some gs'"
    and r: "rows (m_moMatrix gs') = 2" "cols (m_moMatrix gs') = 2"
    and e: "\<forall>i j. i < 2 \<and> j < length [5, 6 :: real] div 2 \<longrightarrow>
              coeffRef (m_moMatrix gs') i j = Some ([5, 6] ! (i + j * 2))"
    unfolding n by blast
  from e have "coeffRef (m_moMatrix gs') 1 0 = Some 6"
    by simp
  with h1 h2 h3 g r show ?thesis by blast
qed

text \<open>
  C6, as the spec has it, fails: a second \<open>addMOs\<close> with one column on a basis with
  two S shells leaves the second column of the first call in place, and a first call
  with one column leaves in the second column what the fresh storage held.
\<close>

text \<open>
  C6, as the spec has it, fails: a second \<open>addMOs\<close> with one column on a basis with
  two S shells leaves the second column of the first call in place, and a first call
  with one column leaves in the second column what the fresh storage held.
\<close>

theorem addMOs_columns_counterexample:
  "m_numMOs (two_shells S S) = 2
   \<and> mo_entry (Option.bind (addMOs zero_mem [1, 2, 3, 4] (two_shells S S))
                 (addMOs zero_mem [5, 6])) 0 1 = Some 3
   \<and> mo_entry (Option.bind (addMOs zero_mem [1, 2, 3, 4] (two_shells S S))
                 (addMOs zero_mem [5, 6])) 1 1 = Some 4
   \<and> mo_entry (addMOs sevens_mem [5, 6] (two_shells S S)) 0 1 = Some 7"
  by code_simp

subsection \<open>Shells of type F and higher in the normalization pass\<close>

lemma skip_fallthrough_13:
  "t \<in> {F, F7, G, G9, H, H11, I, I13} \<Longrightarrow> skip_fallthrough t k = 13"
  by auto

text \<open>
  C5 fails on the code. Whatever the type from F on, the fall-through leaves
  \<open>skip = 13\<close>: an F shell (8 components in \<open>addBasis\<close>) and an F7 shell (7 components)
  both push the MO offset of the next shell to 13. The pass pushes no normalized
  coefficient for them and emits one diagnostic.
\<close>

theorem F_shell_reserves_13:
  "m_numMOs (two_shells F S) = 9
   \<and> init_view (two_shells F S) = Some ([0, 13], [0, 0], [0.71270547], [not_handled])
   \<and> m_numMOs (two_shells F7 S) = 8
   \<and> init_view (two_shells F7 S) = Some ([0, 13], [0, 0], [0.71270547], [not_handled])"
  by (simp add: builders inits)

subsection \<open>The normalized flag and the mutators\<close>

lemma addGTO_m_init: "m_init (fst (addGTO u c a gs)) = m_init gs"
  by (simp add: addGTO_def Let_def)

lemma setDensityMatrix_m_init: "m_init (fst (setDensityMatrix m gs)) = m_init gs"
  by (simp add: setDensityMatrix_def)

text \<open>
  C4 fails on the code. After a normalization pass of the one-shell basis, \<open>addAtom\<close>,
  \<open>addBasis\<close> and \<open>addMOs\<close> clear \<open>m_init\<close>, but \<open>addGTO\<close> and \<open>setDensityMatrix\<close> leave
  it set: after \<open>addGTO\<close> the basis has two primitives, and the next pass returns at
  once with the one normalized coefficient of the first.
\<close>

theorem addGTO_keeps_normalized:
  "map_option (\<lambda>(g, out).
       (m_init g, m_init (fst (addAtom origin 1 g)), m_init (fst (addBasis 0 S g)),
        map_option m_init (addMOs zero_mem [1] g),
        m_init (fst (addGTO 0 1 2 g)),
        m_init (fst (setDensityMatrix \<lparr>rows = 1, cols = 1, coeffs = [1]\<rparr> g)),
        m_gtoC (fst (addGTO 0 1 2 g)),
        init_view (fst (addGTO 0 1 2 g))))
     (initCalculation (one_shell origin S))
   = Some (True, False, False, Some False, True, True, [1, 1],
           Some ([0], [0], [0.71270547], []))"
  by (simp add: builders inits setDensityMatrix_def)

subsection \<open>The clone\<close>

text \<open>
  C3 fails on the code. \<open>clone\<close> copies every member but \<open>m_molecule\<close>: the clone has no
  atoms. Where the original writes \<open>0.71270547\<close> for the origin, the evaluation of the
  clone has no defined result, whether it was cloned before or after the normalization
  pass: it reads the squared distance to atom 0 from an empty array, or the position
  of atom 0 from an empty molecule.
\<close>

theorem clone_drops_molecule:
  "MO_at processPoint (addMOs zero_mem [1] (one_shell origin S)) origin 1 = Some 0.71270547
   \<and> MO_at processPoint (map_option clone (addMOs zero_mem [1] (one_shell origin S))) origin 1
       = None
   \<and> MO_at processPoint
        (Option.bind (addMOs zero_mem [1] (one_shell origin S))
           (\<lambda>g. map_option (\<lambda>(g', out). clone g') (initCalculation g))) origin 1
       = None
   \<and> map_option m_molecule (addMOs zero_mem [1] (one_shell origin S))
       = Some [\<lparr>atomicNumber = 1, atom_pos = origin\<rparr>]
   \<and> map_option (\<lambda>g. m_molecule (clone g)) (addMOs zero_mem [1] (one_shell origin S)) = Some []"
  by (simp add: builders inits evals clone_def)

subsection \<open>The shortcut of the S kernel\<close>

lemma forM_mono:
  assumes "\<And>i s s'. f i s = Some s' \<Longrightarrow> g i s = Some s'"
    and "forM xs f s = Some s'"
  shows "forM xs g s = Some s'"
  using assms(2)
proof (induction xs arbitrary: s)
  case Nil
  then show ?case by simp
next
  case (Cons i xs)
  then obtain s1 where a: "f i s = Some s1" and b: "forM xs f s1 = Some s'"
    by (auto split: option.splits)
  from assms(1) [OF a] Cons.IH [OF b] show ?case by simp
qed

lemma pointS_full_pointS:
  assumes "vec_at (m_symmetry gs) i = Some S" and "no_tiny_S gs k"
    and "pointS_full gs i r k = Some v"
  shows "pointS gs i r k = Some v"
proof -
  from assms(3) obtain mo c tmp where
    mo: "vec_at (m_moIndices gs) i = Some mo" and c: "coeffRef (m_moMatrix gs) mo k = Some c"
    and tmp: "pointS_loop gs i r = Some tmp" and v: "v = tmp * c"
    by (auto simp: pointS_full_def split: Option.bind_splits)
  from assms(1) have "i < length (m_symmetry gs)"
    by (simp add: vec_at_def split: if_splits)
  with assms(2) have "tiny_free gs k i"
    by (simp add: no_tiny_S_def list_all_iff)
  with assms(1) mo c have "c = 0 \<or> \<not> isSmall c"
    by (simp add: tiny_free_def)
  then show ?thesis
  proof
    assume "c = 0"
    with mo c tmp v show ?thesis by (simp add: pointS_def isSmall_def)
  next
    assume "\<not> isSmall c"
    with mo c tmp v show ?thesis by (simp add: pointS_def)
  qed
qed

lemma shell_value_full_shell_value:
  assumes "no_tiny_S gs k" and "shell_value_full gs deltas dr2 k i tmp = Some v"
  shows "shell_value gs deltas dr2 k i tmp = Some v"
proof (cases "vec_at (m_symmetry gs) i = Some S")
  case True
  with assms(2) obtain ai r w where
    ai: "vec_at (m_atomIndices gs) i = Some ai" and r: "vec_at dr2 ai = Some r"
    and w: "pointS_full gs i r k = Some w" and v: "v = tmp + w"
    by (auto simp: shell_value_full_def split: Option.bind_splits)
  from pointS_full_pointS [OF True assms(1) w] True ai r v show ?thesis
    by (simp add: shell_value_def)
next
  case False
  with assms(2) show ?thesis
    by (auto simp: shell_value_full_def split: option.splits orbital.splits)
qed

text \<open>
  C8, as the code has it. Only \<open>pointS\<close> has the shortcut. When no S shell has a
  coefficient \<open>C[moOffset, moIndex]\<close> of magnitude below \<open>1e-20\<close> other than 0, then for
  every basis, point and state for which the evaluation without the shortcut is
  defined, the evaluation with the shortcut is defined and writes the same value.
\<close>

theorem shortcut_preserves_value:
  assumes "no_tiny_S gs (unat (state shell - 1))"
    and "processPoint_full gs cube shell = Some cube'"
  shows "processPoint gs cube shell = Some cube'"
proof -
  from assms(2) obtain deltas dr2 tmp where
    d: "point_deltas gs cube (pos shell) = Some (deltas, dr2)"
    and f: "forM [0..<length (m_symmetry gs)]
              (shell_value_full gs deltas dr2 (unat (state shell - 1))) 0 = Some tmp"
    and s: "setValue cube (pos shell) tmp = Some cube'"
    by (auto simp: processPoint_full_def Let_def split: Option.bind_splits)
  have "forM [0..<length (m_symmetry gs)]
          (shell_value gs deltas dr2 (unat (state shell - 1))) 0 = Some tmp"
    by (rule forM_mono [OF _ f]) (rule shell_value_full_shell_value [OF assms(1)])
  with d s show ?thesis by (simp add: processPoint_def Let_def)
qed

lemma normalized_S_built:
  "Option.bind (addMOs mem [1] (one_shell origin S)) initCalculation = Some (normalized_S, [])"
  by (simp add: builders inits normalized_S_def)

theorem shortcut_preserves_value_witness:
  "no_tiny_S normalized_S (unat (state \<lparr>pos = 0, state = 1\<rparr> - 1))
   \<and> processPoint_full normalized_S (point_cube origin) \<lparr>pos = 0, state = 1\<rparr>
       = Some ((point_cube origin)\<lparr>cube_data := [0.71270547]\<rparr>)
   \<and> processPoint normalized_S (point_cube origin) \<lparr>pos = 0, state = 1\<rparr>
       = Some ((point_cube origin)\<lparr>cube_data := [0.71270547]\<rparr>)"
proof -
  have h1: "no_tiny_S normalized_S (unat (state \<lparr>pos = 0, state = 1\<rparr> - 1))"
    by (simp add: no_tiny_S_def tiny_free_def normalized_S_def vec_at_def coeffRef_def
        isSmall_def)
  have h2: "processPoint_full normalized_S (point_cube origin) \<lparr>pos = 0, state = 1\<rparr>
              = Some ((point_cube origin)\<lparr>cube_data := [0.71270547]\<rparr>)"
    by (simp add: normalized_S_def evals processPoint_full_def shell_value_full_def
        pointS_full_def vec_at_def origin_def upt_conv_Cons)
  from h1 h2 shortcut_preserves_value [OF h1 h2] show ?thesis by blast
qed

text \<open>
  C8, as the spec has it, fails: with the MO coefficient \<open>1e-21\<close> the S kernel returns
  0 where the kernel without the shortcut returns \<open>0.71270547e-21\<close>.
\<close>

theorem shortcut_counterexample:
  "MO_at processPoint (addMOs zero_mem [1 / 10 ^ 21] (one_shell origin S)) origin 1 = Some 0
   \<and> MO_at processPoint_full (addMOs zero_mem [1 / 10 ^ 21] (one_shell origin S)) origin 1
       = Some (0.71270547 / 10 ^ 21)"
  by (simp add: builders inits evals processPoint_full_def shell_value_full_def pointS_full_def)

end
